theory Spec2Isabelle
  imports Main "HOL-Library.Multiset" "HOL-Library.Sublist" "HOL-Library.List_Lexorder"
    "HOL-Library.Char_ord"
begin

section \<open>Title Index: the AVL tree of main.py\<close>

text \<open>
  An \<open>AVLNode\<close> object has the fields title, height, left and right; a child is either
  another node or Python's \<open>None\<close>, hence \<open>AVLNode option\<close>. Every node is referenced by
  exactly one parent, so the in-place updates of the source are modelled by rebuilding
  the node. Titles are Python strings, compared lexicographically by code point.
\<close>

datatype AVLNode =
  AVLNode (title: string) (height: int) (left: "AVLNode option") (right: "AVLNode option")

fun get_height :: "AVLNode option \<Rightarrow> int" where
  "get_height None = 0"
| "get_height (Some node) = height node"

fun get_balance :: "AVLNode option \<Rightarrow> int" where
  "get_balance None = 0"
| "get_balance (Some node) = get_height (left node) - get_height (right node)"

fun avl_rotate_left :: "AVLNode \<Rightarrow> AVLNode" where
  "avl_rotate_left (AVLNode zt zh zl None) = AVLNode zt zh zl None"
| "avl_rotate_left (AVLNode zt zh zl (Some (AVLNode yt yh T2 yr))) =
     (let z = AVLNode zt (1 + max (get_height zl) (get_height T2)) zl T2
      in AVLNode yt (1 + max (get_height (Some z)) (get_height yr)) (Some z) yr)"

fun avl_rotate_right :: "AVLNode \<Rightarrow> AVLNode" where
  "avl_rotate_right (AVLNode zt zh None zr) = AVLNode zt zh None zr"
| "avl_rotate_right (AVLNode zt zh (Some (AVLNode yt yh yl T3)) zr) =
     (let z = AVLNode zt (1 + max (get_height T3) (get_height zr)) T3 zr
      in AVLNode yt (1 + max (get_height yl) (get_height (Some z))) yl (Some z))"

text \<open>
  \<open>balance_tree\<close> keeps the four tests of the source in their order, each comparing the
  child's title with the node's title.
\<close>

definition balance_tree :: "AVLNode \<Rightarrow> AVLNode" where
  "balance_tree node =
     (let balance = get_balance (Some node) in
      if balance > 1 \<and> left node \<noteq> None \<and> title (the (left node)) > title node
        then avl_rotate_right node
      else if balance < - 1 \<and> right node \<noteq> None \<and> title (the (right node)) < title node
        then avl_rotate_left node
      else if balance > 1 \<and> left node \<noteq> None \<and> title (the (left node)) < title node
        then avl_rotate_right
               (AVLNode (title node) (height node)
                  (Some (avl_rotate_left (the (left node)))) (right node))
      else if balance < - 1 \<and> right node \<noteq> None \<and> title (the (right node)) > title node
        then avl_rotate_left
               (AVLNode (title node) (height node) (left node)
                  (Some (avl_rotate_right (the (right node)))))
      else node)"

fun avl_insert :: "AVLNode option \<Rightarrow> string \<Rightarrow> AVLNode" where
  "avl_insert None x = AVLNode x 1 None None"
| "avl_insert (Some (AVLNode t h l r)) x =
     (let (l', r') = (if x < t then (Some (avl_insert l x), r) else (l, Some (avl_insert r x)))
      in balance_tree (AVLNode t (1 + max (get_height l') (get_height r')) l' r'))"

text \<open>\<open>str.startswith\<close> is the prefix relation on character lists.\<close>

definition startswith :: "string \<Rightarrow> string \<Rightarrow> bool" where
  "startswith s p = prefix p s"

fun autocomplete :: "AVLNode option \<Rightarrow> string \<Rightarrow> string list" where
  "autocomplete None p = []"
| "autocomplete (Some (AVLNode t h l r)) p =
     (if startswith t p then [t] else []) @ autocomplete l p @ autocomplete r p"

text \<open>The titles stored in a tree, as a multiset, and the tree built by a sequence of inserts.\<close>

fun titles :: "AVLNode option \<Rightarrow> string multiset" where
  "titles None = {#}"
| "titles (Some (AVLNode t h l r)) = {#t#} + titles l + titles r"

definition insert_all :: "string list \<Rightarrow> AVLNode option" where
  "insert_all xs = foldl (\<lambda>root x. Some (avl_insert root x)) None xs"

section \<open>Prefix search\<close>

text \<open>
  C3: for every tree and every prefix, the strings returned by \<open>autocomplete\<close> are, as a
  multiset, exactly the stored titles that start with the prefix: none is lost and none
  is duplicated.
\<close>

theorem autocomplete_complete:
  "mset (autocomplete t p) = filter_mset (\<lambda>s. startswith s p) (titles t)"
  by (induction t rule: titles.induct) auto

end
